theory Spec2Isabelle
  imports Main
begin

section \<open>Values of the request and reply objects\<close>

text \<open>
  The handlers of \<^verbatim>\<open>src/index.js\<close> read fields of the parsed JSON body and test
  them with JavaScript's truthiness (\<^verbatim>\<open>!phone\<close>, \<^verbatim>\<open>if (error)\<close>,
  \<^verbatim>\<open>isOfficer ? .. : ..\<close>). A value is one of the JSON kinds, or \<^verbatim>\<open>undefined\<close>,
  which is what destructuring gives for a field the body does not have.
  Numbers are integers here: the handlers only ever test a number for being zero.
\<close>

datatype jsval =
    JUndefined
  | JNull
  | JBool bool
  | JNum int
  | JStr string
  | JArr "jsval list"
  | JObj "(string \<times> jsval) list"

text \<open>ToBoolean: the falsy values are undefined, null, false, 0 and the empty string.\<close>

fun truthy :: "jsval \<Rightarrow> bool" where
  "truthy JUndefined = False"
| "truthy JNull = False"
| "truthy (JBool b) = b"
| "truthy (JNum n) = (n \<noteq> 0)"
| "truthy (JStr s) = (s \<noteq> [])"
| "truthy (JArr xs) = True"
| "truthy (JObj kvs) = True"

text \<open>
  \<^verbatim>\<open>req.body\<close> as the JSON body parser leaves it, an object, and
  \<^verbatim>\<open>const { f } = req.body\<close>.
\<close>

type_synonym reqbody = "string \<rightharpoonup> jsval"

definition field :: "reqbody \<Rightarrow> string \<Rightarrow> jsval" where
  "field b k = (case b k of None \<Rightarrow> JUndefined | Some v \<Rightarrow> v)"

section \<open>The external collaborators\<close>

text \<open>
  A row of the \<^verbatim>\<open>users\<close> table, with the columns of the object literal that
  \<^verbatim>\<open>/register\<close> inserts. JavaScript does not type them, so each column holds a value.
\<close>

record user =
  full_name :: jsval
  email :: jsval
  phone :: jsval
  password :: jsval
  role :: jsval
  anonymous_status :: jsval
  officer_verification :: jsval
  verification_status :: jsval

text \<open>
  An awaited promise either fulfils with a value or rejects, which \<^verbatim>\<open>await\<close> turns
  into a thrown error with a message. The Supabase client fulfils with an object
  \<^verbatim>\<open>{ data, error }\<close>; the handlers destructure one or both of its fields.
\<close>

datatype 'a settled = Fulfilled 'a | Rejected string

record response =
  data :: jsval
  error :: jsval

text \<open>The calls that leave the process, one constructor for each call site.\<close>

datatype call =
    Select_id_eq_email_single jsval
      \<comment> \<open>\<^verbatim>\<open>supabase.from('users').select('id').eq('email', email).single()\<close>\<close>
  | Bcrypt_hash jsval nat
      \<comment> \<open>\<^verbatim>\<open>bcrypt.hash(password, 10)\<close>\<close>
  | Insert_users "user list"
      \<comment> \<open>\<^verbatim>\<open>supabase.from('users').insert([..])\<close>\<close>
  | SignInWithOtp jsval
      \<comment> \<open>\<^verbatim>\<open>supabase.auth.signInWithOtp({ phone })\<close>\<close>
  | VerifyOtp jsval jsval string
      \<comment> \<open>\<^verbatim>\<open>supabase.auth.verifyOtp({ phone, token, type })\<close>\<close>
  | Update_verification_status_eq_phone jsval jsval
      \<comment> \<open>\<^verbatim>\<open>supabase.from('users').update({ verification_status: v }).eq('phone', phone)\<close>\<close>

text \<open>
  The hosted service and the hashing library are not part of the repository: what they
  answer to each call is a parameter of every handler.
\<close>

record services =
  select_id_eq_email_single :: "jsval \<Rightarrow> response settled"
  bcrypt_hash :: "jsval \<Rightarrow> nat \<Rightarrow> jsval settled"
  insert_users :: "user list \<Rightarrow> response settled"
  signInWithOtp :: "jsval \<Rightarrow> response settled"
  verifyOtp :: "jsval \<Rightarrow> jsval \<Rightarrow> string \<Rightarrow> response settled"
  update_verification_status_eq_phone :: "jsval \<Rightarrow> jsval \<Rightarrow> response settled"

section \<open>What a handler produces\<close>

text \<open>
  One entry of \<^verbatim>\<open>errors.array()\<close>, reduced to what the source supplies: the field the
  chain was built for and the text given to \<^verbatim>\<open>withMessage\<close>.
\<close>

record violation =
  path :: string
  msg :: string

datatype resbody =
    Message string
      \<comment> \<open>\<^verbatim>\<open>{ message: .. }\<close>\<close>
  | Errors "violation list"
      \<comment> \<open>\<^verbatim>\<open>{ errors: .. }\<close>\<close>

text \<open>
  The HTTP status and JSON body sent, the external calls issued (in order), and the
  lines written with \<^verbatim>\<open>console.error\<close>.
\<close>

record result =
  status :: nat
  json :: resbody
  calls :: "call list"
  log :: "string list"

text \<open>
  The \<^verbatim>\<open>catch\<close> block of each handler: it logs a prefix and the message of the error
  caught, and answers 500 with a fixed body.
\<close>

definition caught :: "string \<Rightarrow> string \<Rightarrow> call list \<Rightarrow> result" where
  "caught prefix m cs =
     \<lparr>status = 500, json = Message ''Internal server error.'',
      calls = cs, log = [prefix @ '' '' @ m]\<rparr>"

definition respond :: "nat \<Rightarrow> string \<Rightarrow> call list \<Rightarrow> result" where
  "respond code m cs = \<lparr>status = code, json = Message m, calls = cs, log = []\<rparr>"

section \<open>POST /send-otp\<close>

definition send_otp :: "services \<Rightarrow> reqbody \<Rightarrow> result" where
  "send_otp S b =
     (let phone' = field b ''phone'' in
      if \<not> truthy phone' then respond 400 ''Phone number is required.'' []
      else
        (case signInWithOtp S phone' of
           Rejected m \<Rightarrow> caught ''Error sending OTP:'' m [SignInWithOtp phone']
         | Fulfilled r \<Rightarrow>
             if truthy (error r)
             then caught ''Error sending OTP:'' ''Failed to send OTP'' [SignInWithOtp phone']
             else respond 200 ''OTP sent successfully.'' [SignInWithOtp phone']))"

section \<open>POST /verify-otp\<close>

definition verify_otp :: "services \<Rightarrow> reqbody \<Rightarrow> result" where
  "verify_otp S b =
     (let phone' = field b ''phone''; token = field b ''token'' in
      if \<not> truthy phone' \<or> \<not> truthy token
      then respond 400 ''Phone and OTP token are required.'' []
      else
        (let c1 = VerifyOtp phone' token ''sms'';
             c2 = Update_verification_status_eq_phone (JBool True) phone' in
         case verifyOtp S phone' token ''sms'' of
           Rejected m \<Rightarrow> caught ''Error verifying OTP:'' m [c1]
         | Fulfilled r \<Rightarrow>
             if truthy (error r)
             then caught ''Error verifying OTP:'' ''Invalid OTP'' [c1]
             else
               (case update_verification_status_eq_phone S (JBool True) phone' of
                  Rejected m \<Rightarrow> caught ''Error verifying OTP:'' m [c1, c2]
                | Fulfilled r2 \<Rightarrow>
                    if truthy (error r2)
                    then caught ''Error verifying OTP:''
                           ''Failed to update verification status'' [c1, c2]
                    else respond 200 ''Phone verified successfully.'' [c1, c2])))"

section \<open>POST /register\<close>

text \<open>
  The validators come from a library outside the repository; the source only names them.
  Each one is a parameter: it is given the value the body has for the field
  (\<^verbatim>\<open>undefined\<close> when the field is missing) and accepts or rejects it.
  \<open>isLength V n\<close> stands for \<^verbatim>\<open>isLength({ min: n })\<close>.
\<close>

record validators =
  isLength :: "nat \<Rightarrow> jsval \<Rightarrow> bool"
  isEmail :: "jsval \<Rightarrow> bool"
  isMobilePhone :: "jsval \<Rightarrow> bool"
  isBoolean :: "jsval \<Rightarrow> bool"

text \<open>
  The array of validation chains given to \<^verbatim>\<open>app.post('/register', ..)\<close>: the field
  \<^verbatim>\<open>body(..)\<close> selects, its validator, and its message.
\<close>

type_synonym chain = "string \<times> (jsval \<Rightarrow> bool) \<times> string"

definition register_chains :: "validators \<Rightarrow> chain list" where
  "register_chains V =
     [(''fullName'', isLength V 3, ''Full name must be at least 3 characters long''),
      (''email'', isEmail V, ''Invalid email address''),
      (''phone'', isMobilePhone V, ''Invalid phone number''),
      (''password'', isLength V 6, ''Password must be at least 6 characters long''),
      (''anonymous'', isBoolean V, ''Anonymous status must be a boolean''),
      (''isOfficer'', isBoolean V, ''isOfficer must be a boolean'')]"

text \<open>
  Every chain runs on the request, whatever the others found, and
  \<^verbatim>\<open>validationResult(req).array()\<close> holds the errors in the order of the chains.
\<close>

definition run_chain :: "reqbody \<Rightarrow> chain \<Rightarrow> violation list" where
  "run_chain b c =
     (case c of (f, ok, m) \<Rightarrow> if ok (field b f) then [] else [\<lparr>path = f, msg = m\<rparr>])"

definition validationResult :: "chain list \<Rightarrow> reqbody \<Rightarrow> violation list" where
  "validationResult cs b = concat (map (run_chain b) cs)"

text \<open>The object literal passed to \<^verbatim>\<open>insert\<close>.\<close>

definition new_user :: "jsval \<Rightarrow> jsval \<Rightarrow> jsval \<Rightarrow> jsval \<Rightarrow> jsval \<Rightarrow> jsval \<Rightarrow> user" where
  "new_user fullName email' phone' hashedPassword anonymous isOfficer =
     \<lparr>full_name = fullName,
      email = email',
      phone = phone',
      password = hashedPassword,
      role = (if truthy isOfficer then JStr ''Law Enforcement Officer'' else JStr ''Citizen''),
      anonymous_status = anonymous,
      officer_verification = (if truthy isOfficer then JBool False else JNull),
      verification_status = JBool False\<rparr>"

definition register :: "validators \<Rightarrow> services \<Rightarrow> reqbody \<Rightarrow> result" where
  "register V S b =
     (let errors = validationResult (register_chains V) b in
      if errors \<noteq> []
      then \<lparr>status = 400, json = Errors errors, calls = [], log = []\<rparr>
      else
        (let fullName = field b ''fullName''; email' = field b ''email'';
             phone' = field b ''phone''; password' = field b ''password'';
             anonymous = field b ''anonymous''; isOfficer = field b ''isOfficer'';
             c1 = Select_id_eq_email_single email';
             c2 = Bcrypt_hash password' 10 in
         case select_id_eq_email_single S email' of
           Rejected m \<Rightarrow> caught ''Error registering user:'' m [c1]
         | Fulfilled r \<Rightarrow>
             if truthy (data r)
             then respond 400 ''Email is already registered.'' [c1]
             else
               (case bcrypt_hash S password' 10 of
                  Rejected m \<Rightarrow> caught ''Error registering user:'' m [c1, c2]
                | Fulfilled hashedPassword \<Rightarrow>
                    (let rows = [new_user fullName email' phone' hashedPassword
                                   anonymous isOfficer];
                         c3 = Insert_users rows in
                     case insert_users S rows of
                       Rejected m \<Rightarrow> caught ''Error registering user:'' m [c1, c2, c3]
                     | Fulfilled r3 \<Rightarrow>
                         if truthy (error r3)
                         then caught ''Error registering user:''
                                ''Failed to register user'' [c1, c2, c3]
                         else respond 200
                                ''Registration successful. Please verify your phone.''
                                [c1, c2, c3]))))"

section \<open>The accounts table\<close>

text \<open>What the services answered to a call that was issued.\<close>

fun rejected :: "services \<Rightarrow> call \<Rightarrow> bool" where
  "rejected S (Select_id_eq_email_single e) =
     (case select_id_eq_email_single S e of Rejected m \<Rightarrow> True | Fulfilled r \<Rightarrow> False)"
| "rejected S (Bcrypt_hash p n) =
     (case bcrypt_hash S p n of Rejected m \<Rightarrow> True | Fulfilled h \<Rightarrow> False)"
| "rejected S (Insert_users rows) =
     (case insert_users S rows of Rejected m \<Rightarrow> True | Fulfilled r \<Rightarrow> False)"
| "rejected S (SignInWithOtp p) =
     (case signInWithOtp S p of Rejected m \<Rightarrow> True | Fulfilled r \<Rightarrow> False)"
| "rejected S (VerifyOtp p t ty) =
     (case verifyOtp S p t ty of Rejected m \<Rightarrow> True | Fulfilled r \<Rightarrow> False)"
| "rejected S (Update_verification_status_eq_phone v p) =
     (case update_verification_status_eq_phone S v p of
        Rejected m \<Rightarrow> True | Fulfilled r \<Rightarrow> False)"

text \<open>The call fulfilled with an object whose \<^verbatim>\<open>error\<close> is set.\<close>

fun error_returned :: "services \<Rightarrow> call \<Rightarrow> bool" where
  "error_returned S (Select_id_eq_email_single e) =
     (case select_id_eq_email_single S e of
        Rejected m \<Rightarrow> False | Fulfilled r \<Rightarrow> truthy (error r))"
| "error_returned S (Bcrypt_hash p n) = False"
| "error_returned S (Insert_users rows) =
     (case insert_users S rows of Rejected m \<Rightarrow> False | Fulfilled r \<Rightarrow> truthy (error r))"
| "error_returned S (SignInWithOtp p) =
     (case signInWithOtp S p of Rejected m \<Rightarrow> False | Fulfilled r \<Rightarrow> truthy (error r))"
| "error_returned S (VerifyOtp p t ty) =
     (case verifyOtp S p t ty of Rejected m \<Rightarrow> False | Fulfilled r \<Rightarrow> truthy (error r))"
| "error_returned S (Update_verification_status_eq_phone v p) =
     (case update_verification_status_eq_phone S v p of
        Rejected m \<Rightarrow> False | Fulfilled r \<Rightarrow> truthy (error r))"

text \<open>A failure reported by the external side: the call rejected, or returned an error.\<close>

definition failed :: "services \<Rightarrow> call \<Rightarrow> bool" where
  "failed S c = (rejected S c \<or> error_returned S c)"

text \<open>
  Modelled from the spec: the record store of the hosted service (section 6: query by
  field, insert, update by field over an accounts table), which is not part of the
  repository. An insert adds its rows, an update by field rewrites the named column of
  every row the filter selects, and the other calls leave the table alone.
\<close>

fun store_effect :: "call \<Rightarrow> user list \<Rightarrow> user list" where
  "store_effect (Insert_users rows) db = db @ rows"
| "store_effect (Update_verification_status_eq_phone v p) db =
     map (\<lambda>u. if phone u = p then u\<lparr>verification_status := v\<rparr> else u) db"
| "store_effect c db = db"

text \<open>
  The table after a request: the calls take effect in the order issued, and a call the
  service reported as failed changes nothing.
\<close>

definition db_after :: "services \<Rightarrow> call list \<Rightarrow> user list \<Rightarrow> user list" where
  "db_after S cs db = fold (\<lambda>c d. if failed S c then d else store_effect c d) cs db"

section \<open>Sample collaborators\<close>

text \<open>
  Modelled from the spec: the rule table of section 4.1, as one instance of the
  validators, on which the handlers can be run. The general facts below hold for
  every instance.
\<close>

definition sample_validators :: validators where
  "sample_validators =
     \<lparr>isLength = (\<lambda>n v. case v of JStr s \<Rightarrow> n \<le> length s | _ \<Rightarrow> False),
      isEmail = (\<lambda>v. case v of JStr s \<Rightarrow> CHR ''@'' \<in> set s | _ \<Rightarrow> False),
      isMobilePhone = (\<lambda>v. case v of JStr s \<Rightarrow> s \<noteq> [] \<and> set s \<subseteq> set ''+0123456789''
                                 | _ \<Rightarrow> False),
      isBoolean = (\<lambda>v. case v of JBool x \<Rightarrow> True | _ \<Rightarrow> False)\<rparr>"

definition ok :: response where
  "ok = \<lparr>data = JNull, error = JNull\<rparr>"

definition err :: "string \<Rightarrow> response" where
  "err d = \<lparr>data = JNull, error = JObj [(''message'', JStr d)]\<rparr>"

text \<open>
  A service on which every call succeeds; the lookup finds no row, which
  \<^verbatim>\<open>single()\<close> reports with an error and no data.
\<close>

definition service_up :: services where
  "service_up =
     \<lparr>select_id_eq_email_single = (\<lambda>e. Fulfilled (err ''no rows'')),
      bcrypt_hash = (\<lambda>p n. Fulfilled (JStr ''$2b$10$N9qo8uLOickgx2ZMRZoMye'')),
      insert_users = (\<lambda>rows. Fulfilled ok),
      signInWithOtp = (\<lambda>p. Fulfilled ok),
      verifyOtp = (\<lambda>p t ty. Fulfilled ok),
      update_verification_status_eq_phone = (\<lambda>v p. Fulfilled ok)\<rparr>"

definition alice :: reqbody where
  "alice =
     [''fullName'' \<mapsto> JStr ''Alice Doe'', ''email'' \<mapsto> JStr ''alice@example.org'',
      ''phone'' \<mapsto> JStr ''+254700000001'', ''password'' \<mapsto> JStr ''hunter22'',
      ''anonymous'' \<mapsto> JBool False, ''isOfficer'' \<mapsto> JBool True]"

definition alice_row :: user where
  "alice_row =
     new_user (JStr ''Alice Doe'') (JStr ''alice@example.org'') (JStr ''+254700000001'')
       (JStr ''$2b$10$N9qo8uLOickgx2ZMRZoMye'') (JBool False) (JBool True)"

definition otp_request :: reqbody where
  "otp_request = [''phone'' \<mapsto> JStr ''+254700000001'', ''token'' \<mapsto> JStr ''123456'']"

text \<open>Services that answer one call differently.\<close>

definition email_taken :: services where
  "email_taken =
     service_up\<lparr>select_id_eq_email_single :=
       (\<lambda>e. Fulfilled \<lparr>data = JObj [(''id'', JNum 7)], error = JNull\<rparr>)\<rparr>"

definition lookup_down :: services where
  "lookup_down =
     service_up\<lparr>select_id_eq_email_single :=
       (\<lambda>e. Fulfilled (err ''upstream request timeout''))\<rparr>"

definition sms_down :: services where
  "sms_down = service_up\<lparr>signInWithOtp := (\<lambda>p. Fulfilled (err ''sms provider error''))\<rparr>"

definition otp_refused :: services where
  "otp_refused =
     service_up\<lparr>verifyOtp := (\<lambda>p t ty. Fulfilled (err ''Token has expired or is invalid''))\<rparr>"

definition update_down :: services where
  "update_down =
     service_up\<lparr>update_verification_status_eq_phone :=
       (\<lambda>v p. Fulfilled (err ''permission denied for table users''))\<rparr>"

text \<open>
  What the validation library does with a field before deciding, for the values where
  that needs no more than the library's documented rules. Each validator is handed the
  string form of the value: the empty string for \<^verbatim>\<open>undefined\<close> and \<^verbatim>\<open>null\<close>,
  and \<^verbatim>\<open>String(value)\<close> for a boolean or a string. No chain of
  \<^verbatim>\<open>/register\<close> looks at the JSON type of a value.
\<close>

fun string_form :: "jsval \<Rightarrow> string option" where
  "string_form JUndefined = Some []"
| "string_form JNull = Some []"
| "string_form (JBool b) = Some (if b then ''true'' else ''false'')"
| "string_form (JStr s) = Some s"
| "string_form v = None"

text \<open>
  On such a value \<^verbatim>\<open>isLength({ min: n })\<close> compares the length of the string form
  with \<open>n\<close>, and \<^verbatim>\<open>isBoolean()\<close> accepts exactly the strings
  \<^verbatim>\<open>true\<close>, \<^verbatim>\<open>false\<close>, \<^verbatim>\<open>1\<close> and \<^verbatim>\<open>0\<close>. Everything else stays a
  parameter \<open>rest\<close>: the verdicts on numbers, arrays and objects, and all of
  \<^verbatim>\<open>isEmail\<close> and \<^verbatim>\<open>isMobilePhone\<close>.
\<close>

definition string_form_validators :: "validators \<Rightarrow> validators" where
  "string_form_validators rest =
     \<lparr>isLength = (\<lambda>n v. case string_form v of
                            Some s \<Rightarrow> n \<le> length s | None \<Rightarrow> isLength rest n v),
      isEmail = isEmail rest,
      isMobilePhone = isMobilePhone rest,
      isBoolean = (\<lambda>v. case string_form v of
                           Some s \<Rightarrow> s \<in> {''true'', ''false'', ''1'', ''0''}
                         | None \<Rightarrow> isBoolean rest v)\<rparr>"

section \<open>Facts shared by the theorems\<close>

lemma falsy_values:
  "\<not> truthy v \<longleftrightarrow> v \<in> {JUndefined, JNull, JBool False, JNum 0, JStr []}"
  by (cases v) auto

lemma register_violations:
  "validationResult (register_chains V) b =
     (if isLength V 3 (field b ''fullName'') then []
      else [\<lparr>path = ''fullName'', msg = ''Full name must be at least 3 characters long''\<rparr>]) @
     (if isEmail V (field b ''email'') then []
      else [\<lparr>path = ''email'', msg = ''Invalid email address''\<rparr>]) @
     (if isMobilePhone V (field b ''phone'') then []
      else [\<lparr>path = ''phone'', msg = ''Invalid phone number''\<rparr>]) @
     (if isLength V 6 (field b ''password'') then []
      else [\<lparr>path = ''password'', msg = ''Password must be at least 6 characters long''\<rparr>]) @
     (if isBoolean V (field b ''anonymous'') then []
      else [\<lparr>path = ''anonymous'', msg = ''Anonymous status must be a boolean''\<rparr>]) @
     (if isBoolean V (field b ''isOfficer'') then []
      else [\<lparr>path = ''isOfficer'', msg = ''isOfficer must be a boolean''\<rparr>])"
  by (simp add: validationResult_def register_chains_def run_chain_def)

lemma register_valid_iff:
  "validationResult (register_chains V) b = [] \<longleftrightarrow>
     isLength V 3 (field b ''fullName'') \<and> isEmail V (field b ''email'') \<and>
     isMobilePhone V (field b ''phone'') \<and> isLength V 6 (field b ''password'') \<and>
     isBoolean V (field b ''anonymous'') \<and> isBoolean V (field b ''isOfficer'')"
  by (simp add: register_violations)

lemma register_invalid:
  "validationResult (register_chains V) b \<noteq> [] \<Longrightarrow>
     register V S b =
       \<lparr>status = 400, json = Errors (validationResult (register_chains V) b),
        calls = [], log = []\<rparr>"
  by (simp add: register_def)

lemma alice_valid: "validationResult (register_chains sample_validators) alice = []"
  by (simp add: register_valid_iff sample_validators_def alice_def field_def)

text \<open>
  A registration answered with 200 has obtained a hash from \<^verbatim>\<open>bcrypt.hash\<close> at cost
  10 and added one row to the table: the row built from the request, whose
  \<^verbatim>\<open>password\<close> column is that hash and whose \<^verbatim>\<open>verification_status\<close> is false.
\<close>

lemma register_200:
  assumes "status (register V S b) = 200"
  shows "\<exists>h. bcrypt_hash S (field b ''password'') 10 = Fulfilled h \<and>
           db_after S (calls (register V S b)) db =
             db @ [new_user (field b ''fullName'') (field b ''email'') (field b ''phone'') h
                     (field b ''anonymous'') (field b ''isOfficer'')]"
  using assms
  by (auto simp: register_def Let_def caught_def respond_def db_after_def failed_def
           split: settled.splits if_splits)

lemma verify_otp_200:
  assumes "status (verify_otp S b) = 200"
  shows "db_after S (calls (verify_otp S b)) db =
           map (\<lambda>u. if phone u = field b ''phone''
                    then u\<lparr>verification_status := JBool True\<rparr> else u) db"
  using assms
  by (auto simp: verify_otp_def Let_def caught_def respond_def db_after_def failed_def
           split: settled.splits if_splits)

text \<open>
  Every failure the handlers look at ends in the \<^verbatim>\<open>catch\<close> block: a rejected call,
  or an error returned by any call other than the email lookup.
\<close>

lemma send_otp_failure:
  assumes "c \<in> set (calls (send_otp S b))" and "failed S c"
  shows "\<exists>m. send_otp S b = caught ''Error sending OTP:'' m (calls (send_otp S b))"
  using assms
  by (auto simp: send_otp_def Let_def respond_def caught_def failed_def
           split: settled.splits if_splits)

lemma verify_otp_failure:
  assumes "c \<in> set (calls (verify_otp S b))" and "failed S c"
  shows "\<exists>m. verify_otp S b = caught ''Error verifying OTP:'' m (calls (verify_otp S b))"
  using assms
  by (auto simp: verify_otp_def Let_def respond_def caught_def failed_def
           split: settled.splits if_splits)

lemma register_failure:
  assumes "c \<in> set (calls (register V S b))"
    and "rejected S c \<or> (error_returned S c \<and> (\<forall>e. c \<noteq> Select_id_eq_email_single e))"
  shows "\<exists>m. register V S b = caught ''Error registering user:'' m (calls (register V S b))"
  using assms
  by (auto simp: register_def Let_def respond_def caught_def split: settled.splits if_splits)

section \<open>Registration\<close>

text \<open>
  The conflict branch. When a validated \<^verbatim>\<open>/register\<close> request reaches the email
  lookup and the lookup returns a row, the handler answers 400 with the message
  "Email is already registered." and does nothing more: the lookup is the only call
  issued, so no hash is computed and no row is inserted, and the table is as before.
\<close>

lemma register_existing_email:
  assumes "validationResult (register_chains V) b = []"
    and "select_id_eq_email_single S (field b ''email'') = Fulfilled r"
    and "truthy (data r)"
  shows "register V S b =
           respond 400 ''Email is already registered.''
             [Select_id_eq_email_single (field b ''email'')] \<and>
         db_after S (calls (register V S b)) db = db"
  using assms by (auto simp: register_def Let_def respond_def db_after_def)

lemma register_existing_email_example:
  "validationResult (register_chains sample_validators) alice = [] \<and>
   select_id_eq_email_single email_taken (field alice ''email'') =
     Fulfilled \<lparr>data = JObj [(''id'', JNum 7)], error = JNull\<rparr> \<and>
   truthy (JObj [(''id'', JNum 7)]) \<and>
   status (register sample_validators email_taken alice) = 400 \<and>
   json (register sample_validators email_taken alice) =
     Message ''Email is already registered.'' \<and>
   calls (register sample_validators email_taken alice) =
     [Select_id_eq_email_single (JStr ''alice@example.org'')] \<and>
   db_after email_taken (calls (register sample_validators email_taken alice)) [alice_row] =
     [alice_row]"
proof -
  have sel: "select_id_eq_email_single email_taken (field alice ''email'') =
               Fulfilled \<lparr>data = JObj [(''id'', JNum 7)], error = JNull\<rparr>"
    by (simp add: email_taken_def service_up_def)
  have tr: "truthy (data \<lparr>data = JObj [(''id'', JNum 7)], error = JNull\<rparr>)"
    by simp
  have fld: "field alice ''email'' = JStr ''alice@example.org''"
    by (simp add: alice_def field_def)
  from register_existing_email [OF alice_valid sel tr, of "[alice_row]"] alice_valid sel fld
  show ?thesis by (simp add: respond_def db_after_def)
qed

text \<open>
  C1. A \<^verbatim>\<open>/register\<close> request whose email is exactly that of a stored account is
  not always answered 400 "Email is already registered.": the conflict branch is taken
  only when the lookup returns the row. When the lookup returns an error and no data,
  the handler, which never reads the lookup's \<^verbatim>\<open>error\<close>, goes on: it computes the
  hash, inserts a second row with the same email and answers 200.
\<close>

theorem register_duplicate_after_lookup_error:
  "email (alice_row\<lparr>verification_status := JBool True\<rparr>) = field alice ''email'' \<and>
   status (register sample_validators lookup_down alice) = 200 \<and>
   json (register sample_validators lookup_down alice) =
     Message ''Registration successful. Please verify your phone.'' \<and>
   calls (register sample_validators lookup_down alice) =
     [Select_id_eq_email_single (JStr ''alice@example.org''),
      Bcrypt_hash (JStr ''hunter22'') 10, Insert_users [alice_row]] \<and>
   db_after lookup_down (calls (register sample_validators lookup_down alice))
     [alice_row\<lparr>verification_status := JBool True\<rparr>] =
     [alice_row\<lparr>verification_status := JBool True\<rparr>, alice_row] \<and>
   email alice_row = email (alice_row\<lparr>verification_status := JBool True\<rparr>)"
proof -
  have e: "email (alice_row\<lparr>verification_status := JBool True\<rparr>) = field alice ''email''"
    by (simp add: alice_row_def new_user_def alice_def field_def)
  have r: "register sample_validators lookup_down alice =
     respond 200 ''Registration successful. Please verify your phone.''
       [Select_id_eq_email_single (JStr ''alice@example.org''),
        Bcrypt_hash (JStr ''hunter22'') 10, Insert_users [alice_row]]"
    using alice_valid
    by (simp add: register_def Let_def lookup_down_def service_up_def err_def ok_def alice_def
          alice_row_def field_def)
  have d: "db_after lookup_down
             [Select_id_eq_email_single (JStr ''alice@example.org''),
              Bcrypt_hash (JStr ''hunter22'') 10, Insert_users [alice_row]]
             [alice_row\<lparr>verification_status := JBool True\<rparr>] =
           [alice_row\<lparr>verification_status := JBool True\<rparr>, alice_row]"
    by (simp add: db_after_def failed_def lookup_down_def service_up_def err_def ok_def)
  from e d show ?thesis by (simp add: r respond_def)
qed

text \<open>
  The validation gate. When the validator of any field of a \<^verbatim>\<open>/register\<close> request rejects the value
  the body has for it (\<^verbatim>\<open>undefined\<close> for a missing field), the response is 400 and
  carries the violations of all six rules, each present exactly when its own validator
  rejects and in the order of the rules; no external call is issued and the table is
  unchanged. The validators are those the source names for each field
  (\<^verbatim>\<open>isLength({ min: 3 })\<close>, \<^verbatim>\<open>isEmail\<close>, \<^verbatim>\<open>isMobilePhone\<close>,
  \<^verbatim>\<open>isLength({ min: 6 })\<close>, \<^verbatim>\<open>isBoolean\<close> twice).
\<close>

lemma register_validation_failure:
  assumes "\<not> isLength V 3 (field b ''fullName'') \<or> \<not> isEmail V (field b ''email'') \<or>
           \<not> isMobilePhone V (field b ''phone'') \<or> \<not> isLength V 6 (field b ''password'') \<or>
           \<not> isBoolean V (field b ''anonymous'') \<or> \<not> isBoolean V (field b ''isOfficer'')"
  shows "status (register V S b) = 400 \<and>
         json (register V S b) = Errors
           ((if isLength V 3 (field b ''fullName'') then []
             else [\<lparr>path = ''fullName'',
                     msg = ''Full name must be at least 3 characters long''\<rparr>]) @
            (if isEmail V (field b ''email'') then []
             else [\<lparr>path = ''email'', msg = ''Invalid email address''\<rparr>]) @
            (if isMobilePhone V (field b ''phone'') then []
             else [\<lparr>path = ''phone'', msg = ''Invalid phone number''\<rparr>]) @
            (if isLength V 6 (field b ''password'') then []
             else [\<lparr>path = ''password'',
                     msg = ''Password must be at least 6 characters long''\<rparr>]) @
            (if isBoolean V (field b ''anonymous'') then []
             else [\<lparr>path = ''anonymous'', msg = ''Anonymous status must be a boolean''\<rparr>]) @
            (if isBoolean V (field b ''isOfficer'') then []
             else [\<lparr>path = ''isOfficer'', msg = ''isOfficer must be a boolean''\<rparr>])) \<and>
         calls (register V S b) = [] \<and>
         db_after S (calls (register V S b)) db = db"
proof -
  from assms have "validationResult (register_chains V) b \<noteq> []"
    unfolding register_valid_iff by blast
  then have "register V S b =
       \<lparr>status = 400, json = Errors (validationResult (register_chains V) b),
        calls = [], log = []\<rparr>"
    by (rule register_invalid)
  then show ?thesis
    by (simp add: register_violations db_after_def)
qed

lemma register_validation_failure_example:
  "\<not> isLength sample_validators 6
       (field (alice(''password'' \<mapsto> JStr ''abc'', ''anonymous'' := None)) ''password'') \<and>
   \<not> isBoolean sample_validators
       (field (alice(''password'' \<mapsto> JStr ''abc'', ''anonymous'' := None)) ''anonymous'') \<and>
   status (register sample_validators service_up
             (alice(''password'' \<mapsto> JStr ''abc'', ''anonymous'' := None))) = 400 \<and>
   json (register sample_validators service_up
           (alice(''password'' \<mapsto> JStr ''abc'', ''anonymous'' := None))) =
     Errors [\<lparr>path = ''password'', msg = ''Password must be at least 6 characters long''\<rparr>,
             \<lparr>path = ''anonymous'', msg = ''Anonymous status must be a boolean''\<rparr>] \<and>
   calls (register sample_validators service_up
            (alice(''password'' \<mapsto> JStr ''abc'', ''anonymous'' := None))) = [] \<and>
   db_after service_up
     (calls (register sample_validators service_up
               (alice(''password'' \<mapsto> JStr ''abc'', ''anonymous'' := None)))) [alice_row] =
     [alice_row]"
proof -
  let ?b = "alice(''password'' \<mapsto> JStr ''abc'', ''anonymous'' := None)"
  have pw: "\<not> isLength sample_validators 6 (field ?b ''password'')"
    by (simp add: sample_validators_def field_def)
  have an: "\<not> isBoolean sample_validators (field ?b ''anonymous'')"
    by (simp add: sample_validators_def field_def)
  have rest: "isLength sample_validators 3 (field ?b ''fullName'')"
    "isEmail sample_validators (field ?b ''email'')"
    "isMobilePhone sample_validators (field ?b ''phone'')"
    "isBoolean sample_validators (field ?b ''isOfficer'')"
    by (simp_all add: sample_validators_def alice_def field_def)
  from pw have hyp:
    "\<not> isLength sample_validators 3 (field ?b ''fullName'') \<or>
     \<not> isEmail sample_validators (field ?b ''email'') \<or>
     \<not> isMobilePhone sample_validators (field ?b ''phone'') \<or>
     \<not> isLength sample_validators 6 (field ?b ''password'') \<or>
     \<not> isBoolean sample_validators (field ?b ''anonymous'') \<or>
     \<not> isBoolean sample_validators (field ?b ''isOfficer'')"
    by blast
  from register_validation_failure [OF hyp, of service_up "[alice_row]"] pw an rest
  show ?thesis by (simp add: db_after_def)
qed

text \<open>
  C4. Not every field that breaks its rule is rejected. The chains decide on the string
  form of a value, so the string \<^verbatim>\<open>"false"\<close> passes \<^verbatim>\<open>isBoolean()\<close> although
  it is not a boolean: a request that is valid except for \<^verbatim>\<open>isOfficer: "false"\<close> has
  no violation, reaches the lookup, the hash and the insert, and is answered 200. The
  row stored has the role "Law Enforcement Officer", because the handler then tests the
  non-empty string for truthiness.
\<close>

theorem register_string_flag_accepted:
  "field (alice(''isOfficer'' \<mapsto> JStr ''false'')) ''isOfficer'' = JStr ''false'' \<and>
   validationResult (register_chains (string_form_validators sample_validators))
     (alice(''isOfficer'' \<mapsto> JStr ''false'')) = [] \<and>
   status (register (string_form_validators sample_validators) service_up
             (alice(''isOfficer'' \<mapsto> JStr ''false''))) = 200 \<and>
   calls (register (string_form_validators sample_validators) service_up
            (alice(''isOfficer'' \<mapsto> JStr ''false''))) =
     [Select_id_eq_email_single (JStr ''alice@example.org''),
      Bcrypt_hash (JStr ''hunter22'') 10, Insert_users [alice_row]] \<and>
   role alice_row = JStr ''Law Enforcement Officer'' \<and>
   db_after service_up
     (calls (register (string_form_validators sample_validators) service_up
               (alice(''isOfficer'' \<mapsto> JStr ''false'')))) [] = [alice_row]"
proof -
  let ?V = "string_form_validators sample_validators"
  let ?b = "alice(''isOfficer'' \<mapsto> JStr ''false'')"
  have f: "field ?b ''isOfficer'' = JStr ''false''"
    by (simp add: field_def)
  have v: "validationResult (register_chains ?V) ?b = []"
    by (simp add: register_valid_iff string_form_validators_def sample_validators_def
          alice_def field_def)
  have r: "register ?V service_up ?b =
     respond 200 ''Registration successful. Please verify your phone.''
       [Select_id_eq_email_single (JStr ''alice@example.org''),
        Bcrypt_hash (JStr ''hunter22'') 10, Insert_users [alice_row]]"
    using v
    by (simp add: register_def Let_def service_up_def err_def ok_def alice_def alice_row_def
          field_def new_user_def)
  have o: "role alice_row = JStr ''Law Enforcement Officer''"
    by (simp add: alice_row_def new_user_def)
  have d: "db_after service_up
             [Select_id_eq_email_single (JStr ''alice@example.org''),
              Bcrypt_hash (JStr ''hunter22'') 10, Insert_users [alice_row]] [] = [alice_row]"
    by (simp add: db_after_def failed_def service_up_def err_def ok_def)
  from f v o d show ?thesis by (simp add: r respond_def)
qed

text \<open>
  C5. When a \<^verbatim>\<open>/register\<close> request is persisted (the insert succeeded and the
  handler answered 200), exactly one row was added to the table, and its role and
  officer-verification columns follow \<^verbatim>\<open>isOfficer\<close>: true gives the role
  "Law Enforcement Officer" with \<^verbatim>\<open>officer_verification\<close> false, false gives the
  role "Citizen" with \<^verbatim>\<open>officer_verification\<close> null.
\<close>

theorem register_role_by_isOfficer:
  assumes "status (register V S b) = 200"
  shows "\<exists>u. db_after S (calls (register V S b)) db = db @ [u] \<and>
           (field b ''isOfficer'' = JBool True \<longrightarrow>
              role u = JStr ''Law Enforcement Officer'' \<and>
              officer_verification u = JBool False) \<and>
           (field b ''isOfficer'' = JBool False \<longrightarrow>
              role u = JStr ''Citizen'' \<and> officer_verification u = JNull)"
  using register_200 [OF assms, of db] by (auto simp: new_user_def)

lemma alice_registered:
  "register sample_validators service_up alice =
     respond 200 ''Registration successful. Please verify your phone.''
       [Select_id_eq_email_single (JStr ''alice@example.org''),
        Bcrypt_hash (JStr ''hunter22'') 10, Insert_users [alice_row]]"
  using alice_valid
  by (simp add: register_def Let_def service_up_def err_def ok_def alice_def alice_row_def
        field_def)

lemma citizen_valid:
  "validationResult (register_chains sample_validators)
     (alice(''isOfficer'' \<mapsto> JBool False)) = []"
  by (simp add: register_valid_iff sample_validators_def alice_def field_def)

lemma citizen_registered:
  "register sample_validators service_up (alice(''isOfficer'' \<mapsto> JBool False)) =
     respond 200 ''Registration successful. Please verify your phone.''
       [Select_id_eq_email_single (JStr ''alice@example.org''),
        Bcrypt_hash (JStr ''hunter22'') 10,
        Insert_users [alice_row\<lparr>role := JStr ''Citizen'', officer_verification := JNull\<rparr>]]"
  using citizen_valid
  by (simp add: register_def Let_def service_up_def err_def ok_def alice_def alice_row_def
        field_def new_user_def)

theorem register_role_by_isOfficer_witness:
  "status (register sample_validators service_up alice) = 200 \<and>
   field alice ''isOfficer'' = JBool True \<and>
   (\<exists>u. db_after service_up (calls (register sample_validators service_up alice)) [] = [u] \<and>
        role u = JStr ''Law Enforcement Officer'' \<and> officer_verification u = JBool False) \<and>
   status (register sample_validators service_up (alice(''isOfficer'' \<mapsto> JBool False))) = 200 \<and>
   field (alice(''isOfficer'' \<mapsto> JBool False)) ''isOfficer'' = JBool False \<and>
   (\<exists>u. db_after service_up
          (calls (register sample_validators service_up (alice(''isOfficer'' \<mapsto> JBool False))))
          [] = [u] \<and>
        role u = JStr ''Citizen'' \<and> officer_verification u = JNull)"
proof -
  have s1: "status (register sample_validators service_up alice) = 200"
    by (simp add: alice_registered respond_def)
  have f1: "field alice ''isOfficer'' = JBool True"
    by (simp add: alice_def field_def)
  have s2: "status (register sample_validators service_up
              (alice(''isOfficer'' \<mapsto> JBool False))) = 200"
    by (simp add: citizen_registered respond_def)
  have f2: "field (alice(''isOfficer'' \<mapsto> JBool False)) ''isOfficer'' = JBool False"
    by (simp add: field_def)
  from register_role_by_isOfficer [OF s1, of "[]"] f1
  have officer: "\<exists>u. db_after service_up
      (calls (register sample_validators service_up alice)) [] = [u] \<and>
      role u = JStr ''Law Enforcement Officer'' \<and> officer_verification u = JBool False"
    by auto
  from register_role_by_isOfficer [OF s2, of "[]"] f2
  have citizen: "\<exists>u. db_after service_up
      (calls (register sample_validators service_up (alice(''isOfficer'' \<mapsto> JBool False))))
      [] = [u] \<and> role u = JStr ''Citizen'' \<and> officer_verification u = JNull"
    by auto
  from s1 f1 officer s2 f2 citizen show ?thesis by blast
qed

text \<open>
  C2. A failure reported by the email lookup is not turned into a 500: the handler
  reads only \<^verbatim>\<open>data\<close> from the lookup's reply, never its \<^verbatim>\<open>error\<close>, so when
  the lookup returns an error and no data the registration goes on, and with a working
  hash and insert it answers 200 and a row is added. (The other calls are covered by
  \<open>register_failure\<close>, \<open>send_otp_failure\<close> and \<open>verify_otp_failure\<close>.)
\<close>

theorem register_lookup_error_ignored:
  "Select_id_eq_email_single (JStr ''alice@example.org'')
     \<in> set (calls (register sample_validators lookup_down alice)) \<and>
   failed lookup_down (Select_id_eq_email_single (JStr ''alice@example.org'')) \<and>
   status (register sample_validators lookup_down alice) = 200 \<and>
   json (register sample_validators lookup_down alice) =
     Message ''Registration successful. Please verify your phone.'' \<and>
   log (register sample_validators lookup_down alice) = [] \<and>
   db_after lookup_down (calls (register sample_validators lookup_down alice)) [alice_row] =
     [alice_row, alice_row]"
proof -
  have r: "register sample_validators lookup_down alice =
     respond 200 ''Registration successful. Please verify your phone.''
       [Select_id_eq_email_single (JStr ''alice@example.org''),
        Bcrypt_hash (JStr ''hunter22'') 10, Insert_users [alice_row]]"
    using alice_valid
    by (simp add: register_def Let_def lookup_down_def service_up_def err_def ok_def alice_def
          alice_row_def field_def)
  have f: "failed lookup_down (Select_id_eq_email_single (JStr ''alice@example.org''))"
    by (simp add: failed_def lookup_down_def service_up_def err_def)
  have d: "db_after lookup_down
             [Select_id_eq_email_single (JStr ''alice@example.org''),
              Bcrypt_hash (JStr ''hunter22'') 10, Insert_users [alice_row]] [alice_row] =
           [alice_row, alice_row]"
    by (simp add: db_after_def failed_def lookup_down_def service_up_def err_def ok_def)
  from r f d show ?thesis by (simp add: respond_def)
qed

section \<open>Sending a code\<close>

text \<open>
  C8. A \<^verbatim>\<open>/send-otp\<close> request whose phone is missing or the empty string is answered
  400 with no external call issued. A request with any other non-falsy phone is passed
  to the service as it is, with no check of the number: when the dispatch succeeds the
  answer is 200, and when the dispatch fails it is 500 with the fixed body.
\<close>

theorem send_otp_outcomes:
  "(field b ''phone'' = JUndefined \<or> field b ''phone'' = JStr [] \<longrightarrow>
      send_otp S b = respond 400 ''Phone number is required.'' []) \<and>
   (truthy (field b ''phone'') \<and> \<not> failed S (SignInWithOtp (field b ''phone'')) \<longrightarrow>
      send_otp S b =
        respond 200 ''OTP sent successfully.'' [SignInWithOtp (field b ''phone'')]) \<and>
   (truthy (field b ''phone'') \<and> failed S (SignInWithOtp (field b ''phone'')) \<longrightarrow>
      status (send_otp S b) = 500 \<and>
      json (send_otp S b) = Message ''Internal server error.'' \<and>
      calls (send_otp S b) = [SignInWithOtp (field b ''phone'')])"
  by (auto simp: send_otp_def Let_def failed_def caught_def split: settled.splits)

theorem send_otp_outcomes_witness:
  "field Map.empty ''phone'' = JUndefined \<and>
   status (send_otp service_up Map.empty) = 400 \<and>
   calls (send_otp service_up Map.empty) = [] \<and>
   field [''phone'' \<mapsto> JStr []] ''phone'' = JStr [] \<and>
   status (send_otp service_up [''phone'' \<mapsto> JStr []]) = 400 \<and>
   calls (send_otp service_up [''phone'' \<mapsto> JStr []]) = [] \<and>
   truthy (field [''phone'' \<mapsto> JStr ''+254700000009''] ''phone'') \<and>
   \<not> failed service_up (SignInWithOtp (field [''phone'' \<mapsto> JStr ''+254700000009''] ''phone'')) \<and>
   status (send_otp service_up [''phone'' \<mapsto> JStr ''+254700000009'']) = 200 \<and>
   failed sms_down (SignInWithOtp (field [''phone'' \<mapsto> JStr ''+254700000009''] ''phone'')) \<and>
   status (send_otp sms_down [''phone'' \<mapsto> JStr ''+254700000009'']) = 500 \<and>
   json (send_otp sms_down [''phone'' \<mapsto> JStr ''+254700000009'']) =
     Message ''Internal server error.''"
proof -
  let ?p = "[''phone'' \<mapsto> JStr ''+254700000009'']"
  have a: "field Map.empty ''phone'' = JUndefined"
    by (simp add: field_def)
  have b: "field [''phone'' \<mapsto> JStr []] ''phone'' = JStr []"
    by (simp add: field_def)
  have c: "truthy (field ?p ''phone'')"
    by (simp add: field_def)
  have d: "\<not> failed service_up (SignInWithOtp (field ?p ''phone''))"
    by (simp add: field_def failed_def service_up_def ok_def)
  have e: "failed sms_down (SignInWithOtp (field ?p ''phone''))"
    by (simp add: field_def failed_def sms_down_def service_up_def err_def)
  from send_otp_outcomes [of Map.empty service_up] a
  have r1: "send_otp service_up Map.empty = respond 400 ''Phone number is required.'' []"
    by blast
  from send_otp_outcomes [of "[''phone'' \<mapsto> JStr []]" service_up] b
  have r2: "send_otp service_up [''phone'' \<mapsto> JStr []] =
              respond 400 ''Phone number is required.'' []"
    by blast
  from send_otp_outcomes [of ?p service_up] c d
  have r3: "send_otp service_up ?p =
              respond 200 ''OTP sent successfully.'' [SignInWithOtp (field ?p ''phone'')]"
    by blast
  from send_otp_outcomes [of ?p sms_down] c e
  have r4: "status (send_otp sms_down ?p) = 500 \<and>
            json (send_otp sms_down ?p) = Message ''Internal server error.''"
    by blast
  from a b c d e r4 show ?thesis
    by (simp add: r1 r2 r3 respond_def)
qed

text \<open>
  C9. On \<^verbatim>\<open>/send-otp\<close> and \<^verbatim>\<open>/verify-otp\<close> every falsy value of a required field
  (undefined for an absent field, null, false, 0, the empty string) counts as missing:
  the answer is 400 and no external call is issued. In particular an empty token on
  \<^verbatim>\<open>/verify-otp\<close> gives 400, not 500.
\<close>

theorem falsy_field_is_missing:
  assumes "v \<in> {JUndefined, JNull, JBool False, JNum 0, JStr []}"
  shows "(field b ''phone'' = v \<longrightarrow>
            send_otp S b = respond 400 ''Phone number is required.'' []) \<and>
         (field b ''phone'' = v \<or> field b ''token'' = v \<longrightarrow>
            verify_otp S b = respond 400 ''Phone and OTP token are required.'' [])"
proof -
  from assms have "\<not> truthy v"
    by (simp add: falsy_values)
  then show ?thesis
    by (auto simp: send_otp_def verify_otp_def Let_def)
qed

theorem falsy_field_is_missing_witness:
  "JStr [] \<in> {JUndefined, JNull, JBool False, JNum 0, JStr []} \<and>
   field (otp_request(''token'' \<mapsto> JStr [])) ''token'' = JStr [] \<and>
   status (verify_otp service_up (otp_request(''token'' \<mapsto> JStr []))) = 400 \<and>
   calls (verify_otp service_up (otp_request(''token'' \<mapsto> JStr []))) = [] \<and>
   JNum 0 \<in> {JUndefined, JNull, JBool False, JNum 0, JStr []} \<and>
   field [''phone'' \<mapsto> JNum 0] ''phone'' = JNum 0 \<and>
   status (send_otp service_up [''phone'' \<mapsto> JNum 0]) = 400 \<and>
   calls (send_otp service_up [''phone'' \<mapsto> JNum 0]) = []"
proof -
  have m1: "JStr [] \<in> {JUndefined, JNull, JBool False, JNum 0, JStr []}"
    by simp
  have m2: "JNum 0 \<in> {JUndefined, JNull, JBool False, JNum 0, JStr []}"
    by simp
  have f1: "field (otp_request(''token'' \<mapsto> JStr [])) ''token'' = JStr []"
    by (simp add: field_def)
  have f2: "field [''phone'' \<mapsto> JNum 0] ''phone'' = JNum 0"
    by (simp add: field_def)
  from falsy_field_is_missing [OF m1, of "otp_request(''token'' \<mapsto> JStr [])" service_up] f1
  have r1: "verify_otp service_up (otp_request(''token'' \<mapsto> JStr [])) =
              respond 400 ''Phone and OTP token are required.'' []"
    by blast
  from falsy_field_is_missing [OF m2, of "[''phone'' \<mapsto> JNum 0]" service_up] f2
  have r2: "send_otp service_up [''phone'' \<mapsto> JNum 0] =
              respond 400 ''Phone number is required.'' []"
    by blast
  from m1 m2 f1 f2 show ?thesis
    by (simp add: r1 r2 respond_def)
qed

section \<open>Verifying a code\<close>

text \<open>
  C7. When a \<^verbatim>\<open>/verify-otp\<close> request reaches the service and the service reports the
  code as not accepted (it returns an error, whatever the error says: a wrong code and
  an expired one give the same result), the handler answers 500 with the fixed body and
  logs "Invalid OTP"; the verification call is the only call issued, so no update is
  made and the table, with every \<^verbatim>\<open>verification_status\<close> in it, is as before.
\<close>

theorem verify_otp_invalid_code:
  assumes "truthy (field b ''phone'')" and "truthy (field b ''token'')"
    and "error_returned S (VerifyOtp (field b ''phone'') (field b ''token'') ''sms'')"
  shows "verify_otp S b =
           \<lparr>status = 500, json = Message ''Internal server error.'',
            calls = [VerifyOtp (field b ''phone'') (field b ''token'') ''sms''],
            log = [''Error verifying OTP: Invalid OTP'']\<rparr> \<and>
         db_after S (calls (verify_otp S b)) db = db"
  using assms
  by (auto simp: verify_otp_def Let_def caught_def db_after_def failed_def
           split: settled.splits)

theorem verify_otp_invalid_code_witness:
  "truthy (field otp_request ''phone'') \<and> truthy (field otp_request ''token'') \<and>
   error_returned otp_refused
     (VerifyOtp (field otp_request ''phone'') (field otp_request ''token'') ''sms'') \<and>
   status (verify_otp otp_refused otp_request) = 500 \<and>
   calls (verify_otp otp_refused otp_request) =
     [VerifyOtp (JStr ''+254700000001'') (JStr ''123456'') ''sms''] \<and>
   db_after otp_refused (calls (verify_otp otp_refused otp_request)) [alice_row] = [alice_row]"
proof -
  have p: "truthy (field otp_request ''phone'')"
    by (simp add: otp_request_def field_def)
  have t: "truthy (field otp_request ''token'')"
    by (simp add: otp_request_def field_def)
  have e: "error_returned otp_refused
             (VerifyOtp (field otp_request ''phone'') (field otp_request ''token'') ''sms'')"
    by (simp add: otp_refused_def service_up_def err_def)
  have f: "field otp_request ''phone'' = JStr ''+254700000001''"
    "field otp_request ''token'' = JStr ''123456''"
    by (simp_all add: otp_request_def field_def)
  from verify_otp_invalid_code [OF p t e, of "[alice_row]"]
  have r: "verify_otp otp_refused otp_request =
             \<lparr>status = 500, json = Message ''Internal server error.'',
              calls = [VerifyOtp (field otp_request ''phone'') (field otp_request ''token'')
                        ''sms''],
              log = [''Error verifying OTP: Invalid OTP'']\<rparr>"
    and d: "db_after otp_refused (calls (verify_otp otp_refused otp_request)) [alice_row] =
              [alice_row]"
    by blast+
  from p t e d show ?thesis
    by (simp add: r f)
qed

text \<open>
  C3. When a \<^verbatim>\<open>/verify-otp\<close> request reaches the service and the service accepts the
  (phone, token) pair, the handler issues the update that sets
  \<^verbatim>\<open>verification_status\<close> to true on the rows whose phone is the submitted one. When
  the update succeeds the answer is 200 and every row of the table with that phone has
  \<^verbatim>\<open>verification_status\<close> true; when the update fails the answer is 500 with the
  fixed body.
\<close>

theorem verify_otp_valid_code:
  assumes "truthy (field b ''phone'')" and "truthy (field b ''token'')"
    and "\<not> failed S (VerifyOtp (field b ''phone'') (field b ''token'') ''sms'')"
  shows "calls (verify_otp S b) =
           [VerifyOtp (field b ''phone'') (field b ''token'') ''sms'',
            Update_verification_status_eq_phone (JBool True) (field b ''phone'')] \<and>
         (if failed S (Update_verification_status_eq_phone (JBool True) (field b ''phone''))
          then status (verify_otp S b) = 500 \<and>
               json (verify_otp S b) = Message ''Internal server error.''
          else status (verify_otp S b) = 200 \<and>
               json (verify_otp S b) = Message ''Phone verified successfully.'' \<and>
               (\<forall>u \<in> set (db_after S (calls (verify_otp S b)) db).
                  phone u = field b ''phone'' \<longrightarrow> verification_status u = JBool True))"
  using assms
  by (auto simp: verify_otp_def Let_def caught_def respond_def db_after_def failed_def
           split: settled.splits)

theorem verify_otp_valid_code_witness:
  "truthy (field otp_request ''phone'') \<and> truthy (field otp_request ''token'') \<and>
   \<not> failed service_up
       (VerifyOtp (field otp_request ''phone'') (field otp_request ''token'') ''sms'') \<and>
   \<not> failed service_up
       (Update_verification_status_eq_phone (JBool True) (field otp_request ''phone'')) \<and>
   status (verify_otp service_up otp_request) = 200 \<and>
   db_after service_up (calls (verify_otp service_up otp_request)) [alice_row] =
     [alice_row\<lparr>verification_status := JBool True\<rparr>] \<and>
   \<not> failed update_down
       (VerifyOtp (field otp_request ''phone'') (field otp_request ''token'') ''sms'') \<and>
   failed update_down
     (Update_verification_status_eq_phone (JBool True) (field otp_request ''phone'')) \<and>
   status (verify_otp update_down otp_request) = 500 \<and>
   json (verify_otp update_down otp_request) = Message ''Internal server error.''"
proof -
  have p: "truthy (field otp_request ''phone'')"
    by (simp add: otp_request_def field_def)
  have t: "truthy (field otp_request ''token'')"
    by (simp add: otp_request_def field_def)
  have v1: "\<not> failed service_up
              (VerifyOtp (field otp_request ''phone'') (field otp_request ''token'') ''sms'')"
    by (simp add: failed_def service_up_def ok_def)
  have u1: "\<not> failed service_up
              (Update_verification_status_eq_phone (JBool True) (field otp_request ''phone''))"
    by (simp add: failed_def service_up_def ok_def)
  have v2: "\<not> failed update_down
              (VerifyOtp (field otp_request ''phone'') (field otp_request ''token'') ''sms'')"
    by (simp add: failed_def update_down_def service_up_def ok_def)
  have u2: "failed update_down
              (Update_verification_status_eq_phone (JBool True) (field otp_request ''phone''))"
    by (simp add: failed_def update_down_def service_up_def err_def)
  have cs: "calls (verify_otp service_up otp_request) =
              [VerifyOtp (field otp_request ''phone'') (field otp_request ''token'') ''sms'',
               Update_verification_status_eq_phone (JBool True) (field otp_request ''phone'')]"
    using verify_otp_valid_code [OF p t v1, of "[]"] by blast
  have m: "db_after service_up (calls (verify_otp service_up otp_request)) [alice_row] =
             [alice_row\<lparr>verification_status := JBool True\<rparr>]"
    unfolding cs
    by (simp add: db_after_def failed_def service_up_def ok_def otp_request_def field_def
          alice_row_def new_user_def)
  from verify_otp_valid_code [OF p t v1, of "[alice_row]"] u1
  have good: "status (verify_otp service_up otp_request) = 200"
    by simp
  from verify_otp_valid_code [OF p t v2, of "[alice_row]"] u2
  have bad: "status (verify_otp update_down otp_request) = 500 \<and>
      json (verify_otp update_down otp_request) = Message ''Internal server error.''"
    by simp
  from p t v1 u1 v2 u2 m good bad show ?thesis by simp
qed

text \<open>
  C10. After a successful \<^verbatim>\<open>/verify-otp\<close> request the table has the same rows in the
  same places, and each of them is changed as follows: a row whose phone equals the
  submitted phone has \<^verbatim>\<open>verification_status\<close> set to true and all its other columns
  as before, whether one row or several share that phone; a row with another phone is
  not changed at all.
\<close>

theorem verify_otp_updates_every_match:
  assumes "status (verify_otp S b) = 200" and "i < length db"
  shows "length (db_after S (calls (verify_otp S b)) db) = length db \<and>
         db_after S (calls (verify_otp S b)) db ! i =
           (if phone (db ! i) = field b ''phone''
            then (db ! i)\<lparr>verification_status := JBool True\<rparr>
            else db ! i)"
  using assms by (simp add: verify_otp_200)

theorem verify_otp_updates_every_match_witness:
  "status (verify_otp service_up otp_request) = 200 \<and>
   (1::nat) < length [alice_row, alice_row\<lparr>email := JStr ''al@example.org''\<rparr>,
                      alice_row\<lparr>phone := JStr ''+254700000002''\<rparr>] \<and>
   db_after service_up (calls (verify_otp service_up otp_request))
     [alice_row, alice_row\<lparr>email := JStr ''al@example.org''\<rparr>,
      alice_row\<lparr>phone := JStr ''+254700000002''\<rparr>] ! 1 =
     alice_row\<lparr>email := JStr ''al@example.org'', verification_status := JBool True\<rparr> \<and>
   (2::nat) < length [alice_row, alice_row\<lparr>email := JStr ''al@example.org''\<rparr>,
                      alice_row\<lparr>phone := JStr ''+254700000002''\<rparr>] \<and>
   db_after service_up (calls (verify_otp service_up otp_request))
     [alice_row, alice_row\<lparr>email := JStr ''al@example.org''\<rparr>,
      alice_row\<lparr>phone := JStr ''+254700000002''\<rparr>] ! 2 =
     alice_row\<lparr>phone := JStr ''+254700000002''\<rparr>"
proof -
  let ?db = "[alice_row, alice_row\<lparr>email := JStr ''al@example.org''\<rparr>,
              alice_row\<lparr>phone := JStr ''+254700000002''\<rparr>]"
  have s: "status (verify_otp service_up otp_request) = 200"
    by (simp add: verify_otp_def Let_def respond_def service_up_def ok_def otp_request_def
          field_def)
  have i1: "(1::nat) < length ?db" and i2: "(2::nat) < length ?db"
    by simp_all
  have f: "field otp_request ''phone'' = JStr ''+254700000001''"
    by (simp add: otp_request_def field_def)
  from verify_otp_updates_every_match [OF s i1]
  have r1: "db_after service_up (calls (verify_otp service_up otp_request)) ?db ! 1 =
              alice_row\<lparr>email := JStr ''al@example.org'', verification_status := JBool True\<rparr>"
    by (simp add: f alice_row_def new_user_def)
  from verify_otp_updates_every_match [OF s i2]
  have r2: "db_after service_up (calls (verify_otp service_up otp_request)) ?db ! 2 =
              alice_row\<lparr>phone := JStr ''+254700000002''\<rparr>"
    by (simp add: f alice_row_def new_user_def)
  from s i1 i2 r1 r2 show ?thesis by blast
qed

end
